theory Spec2Isabelle
  imports Main
begin

section \<open>The CloudMapper auditor stack\<close>

text \<open>
  A shallow embedding of the constructor of \<^verbatim>\<open>CloudmapperauditorStack\<close>
  (\<^verbatim>\<open>auditor/lib/cloudmapperauditor-stack.js\<close>). The constructor reads a YAML
  configuration, refuses to continue while the configuration is the shipped placeholder,
  builds a VPC through the CDK, creates one CloudFormation condition that is always
  false, walks the children of every private subnet and assigns that condition to each
  \<^verbatim>\<open>CfnRoute\<close>, and then declares the task, its IAM policy and the alarm
  forwarder from the configuration values.

  The inputs of the model are what the constructor gets from outside: the configuration
  as \<^verbatim>\<open>yaml.safeLoad\<close> returned it (reading and parsing the file precede
  everything modelled here), and the network the CDK's \<^verbatim>\<open>ec2.Vpc\<close> builds.
\<close>

subsection \<open>JavaScript values of the configuration\<close>

text \<open>
  \<^verbatim>\<open>yaml.safeLoad\<close> returns plain JavaScript values: \<^verbatim>\<open>undefined\<close> for an
  empty file, null, a boolean, a string, an array for a sequence, and an object with the
  keys of a mapping as its own properties. Numbers and timestamps are left out: their
  string rendering is floating-point and calendar arithmetic. So is a mapping with a key
  \<^verbatim>\<open>__proto__\<close>, which the parser may turn into the prototype of the object.
\<close>

datatype js_value =
    JUndefined
  | JNull
  | JBool bool
  | JStr string
  | JArr "js_value list"
  | JObj "(string \<times> js_value) list"

text \<open>The one exception the constructor can run into while it handles these values.\<close>

datatype js_error = TypeError

text \<open>
  \<^verbatim>\<open>config[key]\<close> for one of the keys the constructor reads. Reading a property of
  \<^verbatim>\<open>undefined\<close> or \<^verbatim>\<open>null\<close> throws. A mapping gives the value under the
  key, \<^verbatim>\<open>undefined\<close> when the key is absent. A boolean, a string and an array have
  no property of these names, own or inherited.
\<close>

fun config_get :: "js_value \<Rightarrow> string \<Rightarrow> js_error + js_value" where
  "config_get JUndefined key = Inl TypeError"
| "config_get JNull key = Inl TypeError"
| "config_get (JObj kvs) key = Inr (case map_of kvs key of None \<Rightarrow> JUndefined | Some v \<Rightarrow> v)"
| "config_get (JBool b) key = Inr JUndefined"
| "config_get (JStr s) key = Inr JUndefined"
| "config_get (JArr xs) key = Inr JUndefined"

text \<open>\<^verbatim>\<open>Array.prototype.join\<close> on strings that are already converted.\<close>

fun join :: "string \<Rightarrow> string list \<Rightarrow> string" where
  "join sep [] = []"
| "join sep [x] = x"
| "join sep (x # y # ys) = x @ sep @ join sep (y # ys)"

text \<open>The conversions of the elements of an array, in order: the first that throws ends it.\<close>

fun collect :: "(js_error + 'a) list \<Rightarrow> js_error + 'a list" where
  "collect [] = Inr []"
| "collect (Inl e # rs) = Inl e"
| "collect (Inr a # rs) = (case collect rs of Inl e \<Rightarrow> Inl e | Inr as \<Rightarrow> Inr (a # as))"

text \<open>
  The string of a value, as the operators \<^verbatim>\<open>+\<close> and \<^verbatim>\<open>==\<close> obtain it
  (ECMAScript \<^verbatim>\<open>ToPrimitive\<close>, then \<^verbatim>\<open>ToString\<close>). An array is its elements
  joined by commas, where \<^verbatim>\<open>null\<close> and \<^verbatim>\<open>undefined\<close> elements give the empty
  string. An object is asked for its methods \<^verbatim>\<open>valueOf\<close> and \<^verbatim>\<open>toString\<close>:
  the inherited \<^verbatim>\<open>valueOf\<close> returns the object itself, which is no primitive, and the
  inherited \<^verbatim>\<open>toString\<close> returns \<^verbatim>\<open>[object Object]\<close>. A mapping with a key
  \<^verbatim>\<open>toString\<close> of its own hides the inherited method behind a value that cannot
  be called, no method is left that returns a primitive, and the conversion throws.
\<close>

fun to_string :: "js_value \<Rightarrow> js_error + string" where
  "to_string JUndefined = Inr ''undefined''"
| "to_string JNull = Inr ''null''"
| "to_string (JBool b) = Inr (if b then ''true'' else ''false'')"
| "to_string (JStr s) = Inr s"
| "to_string (JArr xs) =
     (case collect (map (\<lambda>x. case x of JUndefined \<Rightarrow> Inr [] | JNull \<Rightarrow> Inr []
                                 | _ \<Rightarrow> to_string x) xs) of
        Inl e \<Rightarrow> Inl e
      | Inr strs \<Rightarrow> Inr (join '','' strs))"
| "to_string (JObj kvs) =
     (if ''toString'' \<in> set (map fst kvs) then Inl TypeError else Inr ''[object Object]'')"

text \<open>\<^verbatim>\<open>"literal" + v\<close>: the left operand is a string, so the result is a string.\<close>

definition js_concat :: "string \<Rightarrow> js_value \<Rightarrow> js_error + string" where
  "js_concat lit v = (case to_string v of Inl e \<Rightarrow> Inl e | Inr s \<Rightarrow> Inr (lit @ s))"

definition placeholder :: string where
  "placeholder = ''MYCOMPANY-cloudmapper''"

text \<open>
  \<^verbatim>\<open>v == 'MYCOMPANY-cloudmapper'\<close>, the abstract (loose) equality of ECMAScript with
  this string literal on the right. \<^verbatim>\<open>undefined\<close> and \<^verbatim>\<open>null\<close> equal only
  each other. A boolean is compared as a number with the number the literal denotes, which
  is NaN, so the comparison is false. An object is converted to a primitive first, which
  for arrays and plain objects is their string, and that conversion can throw.
\<close>

fun equals_placeholder :: "js_value \<Rightarrow> js_error + bool" where
  "equals_placeholder JUndefined = Inr False"
| "equals_placeholder JNull = Inr False"
| "equals_placeholder (JBool b) = Inr False"
| "equals_placeholder (JStr s) = Inr (s = placeholder)"
| "equals_placeholder (JArr xs) =
     (case to_string (JArr xs) of Inl e \<Rightarrow> Inl e | Inr s \<Rightarrow> Inr (s = placeholder))"
| "equals_placeholder (JObj kvs) =
     (case to_string (JObj kvs) of Inl e \<Rightarrow> Inl e | Inr s \<Rightarrow> Inr (s = placeholder))"

text \<open>The test of the constructor: \<^verbatim>\<open>config['s3_bucket'] == 'MYCOMPANY-cloudmapper'\<close>.\<close>

definition placeholder_test :: "js_value \<Rightarrow> js_error + bool" where
  "placeholder_test config =
     (case config_get config ''s3_bucket'' of
        Inl e \<Rightarrow> Inl e
      | Inr bucket \<Rightarrow> equals_placeholder bucket)"

subsection \<open>CloudFormation conditions\<close>

text \<open>
  \<^verbatim>\<open>cdk.Fn.conditionEquals(lhs, rhs)\<close> builds the expression
  \<^verbatim>\<open>{"Fn::Equals": [lhs, rhs]}\<close>. An operand is a literal or a reference to a
  template parameter, whose value is only known when the template is deployed.
\<close>

datatype cfn_operand = Literal js_value | ParameterRef string

datatype cfn_condition_expression = FnEquals cfn_operand cfn_operand

definition conditionEquals :: "cfn_operand \<Rightarrow> cfn_operand \<Rightarrow> cfn_condition_expression" where
  "conditionEquals lhs rhs = FnEquals lhs rhs"

record cfn_condition =
  logical_id :: string
  expression :: cfn_condition_expression

subsection \<open>The construct tree of the VPC\<close>

text \<open>
  Every construct is created inside exactly one scope, so \<^verbatim>\<open>node.children\<close> spans
  a tree and a subnet with its children is a nested value. A child of a subnet is a
  CloudFormation resource: it has the name of its class
  (\<^verbatim>\<open>child.constructor.name\<close>), its \<^verbatim>\<open>cfnOptions\<close> and its properties.
  Every class the CDK generates for a CloudFormation resource extends
  \<^verbatim>\<open>CfnResource\<close>, which carries \<^verbatim>\<open>cfnOptions\<close>, so the assignment
  to \<^verbatim>\<open>child.cfnOptions.condition\<close> has an object to write to.
  The condition slot of \<^verbatim>\<open>cfnOptions\<close> holds a reference to a condition object
  of the stack: conditions are shared, so they are kept in the stack and referred to by
  their position there.
\<close>

record cfn_options =
  condition :: "nat option"
  other_options :: "(string \<times> string) list"

record cfn_resource =
  constructor_name :: string
  resource_id :: string
  cfnOptions :: cfn_options
  properties :: "(string \<times> string) list"

record construct_node =
  node_id :: string
  children :: "cfn_resource list"

record subnet =
  node :: construct_node
  availabilityZone :: string

record vpc =
  publicSubnets :: "subnet list"
  privateSubnets :: "subnet list"
  isolatedSubnets :: "subnet list"

record vpc_props =
  maxAzs :: nat
  natGateways :: nat

subsection \<open>Removing the routes of the private subnets\<close>

text \<open>
  \<^verbatim>\<open>for (var x of xs) { ... }\<close> over an array: the array iterator keeps an
  index and compares it with the length of the array before every step. The bodies of
  both loops of the constructor update the element they visit, in place.
\<close>

function (domintros) for_of :: "('a \<Rightarrow> 'a) \<Rightarrow> 'a list \<Rightarrow> nat \<Rightarrow> 'a list" where
  "for_of body xs i =
     (if i < length xs then for_of body (xs[i := body (xs ! i)]) (Suc i) else xs)"
  by pat_completeness auto
termination
  by (relation "measure (\<lambda>(body, xs, i). length xs - i)") auto

declare for_of.simps [simp del]

text \<open>The test of the inner loop: \<^verbatim>\<open>child.constructor.name==="CfnRoute"\<close>.\<close>

definition is_CfnRoute :: "cfn_resource \<Rightarrow> bool" where
  "is_CfnRoute child = (constructor_name child = ''CfnRoute'')"

text \<open>
  The body of the inner loop:
  \<^verbatim>\<open>if (child.constructor.name==="CfnRoute") { child.cfnOptions.condition = exclude_condition }\<close>
\<close>

definition suppress_child :: "nat \<Rightarrow> cfn_resource \<Rightarrow> cfn_resource" where
  "suppress_child exclude_condition child =
     (if is_CfnRoute child
      then child\<lparr>cfnOptions := (cfnOptions child)\<lparr>condition := Some exclude_condition\<rparr>\<rparr>
      else child)"

text \<open>
  The body of the outer loop, which is the inner loop:
  \<^verbatim>\<open>for (var child of subnet.node.children) { ... }\<close>
\<close>

definition suppress_subnet :: "nat \<Rightarrow> subnet \<Rightarrow> subnet" where
  "suppress_subnet exclude_condition s =
     s\<lparr>node := (node s)\<lparr>children :=
        for_of (suppress_child exclude_condition) (children (node s)) 0\<rparr>\<rparr>"

text \<open>\<^verbatim>\<open>for (var subnet of vpc.privateSubnets) { ... }\<close>\<close>

definition suppress_routes :: "nat \<Rightarrow> vpc \<Rightarrow> vpc" where
  "suppress_routes exclude_condition v =
     v\<lparr>privateSubnets := for_of (suppress_subnet exclude_condition) (privateSubnets v) 0\<rparr>"

subsection \<open>The stack and its constructor\<close>

text \<open>
  What the constructor builds in the scope \<^verbatim>\<open>this\<close>: the identifiers of the
  constructs it creates, in order; the condition objects (a reference to one is its
  position); the VPC; the environment of the container and the statements of the task
  role; the environment of the alarm forwarder and the statements of its role.
\<close>

record policy_statement =
  resources :: "js_value list"
  actions :: "string list"
  statement_conditions :: "(string \<times> string \<times> string) list"

record stack =
  constructs :: "string list"
  cfn_conditions :: "cfn_condition list"
  stack_vpc :: "vpc option"
  containerEnvironment :: "(string \<times> js_value) list"
  taskRolePolicy :: "policy_statement list"
  functionEnvironment :: "(string \<times> js_value) list"
  functionRolePolicy :: "policy_statement list"

text \<open>The stack after \<^verbatim>\<open>super(scope, id, props)\<close>: nothing is declared in it yet.\<close>

definition empty_stack :: stack where
  "empty_stack =
     \<lparr>constructs = [], cfn_conditions = [], stack_vpc = None, containerEnvironment = [],
      taskRolePolicy = [], functionEnvironment = [], functionRolePolicy = []\<rparr>"

text \<open>\<^verbatim>\<open>new X(this, id, ...)\<close> adds a construct to the scope.\<close>

definition new_construct :: "string \<Rightarrow> stack \<Rightarrow> stack" where
  "new_construct ident this = this\<lparr>constructs := constructs this @ [ident]\<rparr>"

text \<open>
  \<^verbatim>\<open>new cdk.CfnCondition(this, id, { expression: e })\<close> allocates a condition object
  and returns the reference to it.
\<close>

definition new_CfnCondition ::
  "string \<Rightarrow> cfn_condition_expression \<Rightarrow> stack \<Rightarrow> nat \<times> stack" where
  "new_CfnCondition ident e this =
     (length (cfn_conditions this),
      (new_construct ident this)\<lparr>cfn_conditions :=
         cfn_conditions this @ [\<lparr>logical_id = ident, expression = e\<rparr>]\<rparr>)"

definition addToTaskRolePolicy :: "policy_statement \<Rightarrow> stack \<Rightarrow> stack" where
  "addToTaskRolePolicy statement this =
     this\<lparr>taskRolePolicy := taskRolePolicy this @ [statement]\<rparr>"

definition addToRolePolicy :: "policy_statement \<Rightarrow> stack \<Rightarrow> stack" where
  "addToRolePolicy statement this =
     this\<lparr>functionRolePolicy := functionRolePolicy this @ [statement]\<rparr>"

text \<open>
  The constructor ends the process (\<^verbatim>\<open>console.log\<close> and
  \<^verbatim>\<open>process.exit(1)\<close>: the lines printed and the exit status), or an exception
  leaves it, or it returns the stack. Each outcome carries the stack as it is at that
  moment.
\<close>

datatype outcome =
    is_Exited: Exited "string list" int stack
  | is_Threw: Threw js_error stack
  | is_Constructed: Constructed stack

fun stack_of :: "outcome \<Rightarrow> stack" where
  "stack_of (Exited console status this) = this"
| "stack_of (Threw e this) = this"
| "stack_of (Constructed this) = this"

text \<open>An expression that can throw, evaluated while the stack is \<open>this\<close>.\<close>

definition or_throw :: "js_error + 'a \<Rightarrow> stack \<Rightarrow> ('a \<Rightarrow> outcome) \<Rightarrow> outcome" where
  "or_throw r this k = (case r of Inl e \<Rightarrow> Threw e this | Inr a \<Rightarrow> k a)"

text \<open>
  The constructor. \<^verbatim>\<open>ec2_Vpc\<close> is the CDK's \<^verbatim>\<open>ec2.Vpc\<close>, which is not
  part of this repository: it is a parameter, called with the properties the source gives
  it. \<^verbatim>\<open>config\<close> is the parsed \<^verbatim>\<open>cdk_app.yaml\<close>. The arguments of a
  call are evaluated before the call.
\<close>

definition CloudmapperauditorStack :: "(vpc_props \<Rightarrow> vpc) \<Rightarrow> js_value \<Rightarrow> outcome" where
  "CloudmapperauditorStack ec2_Vpc config =
    (let this = empty_stack in
     or_throw (placeholder_test config) this (\<lambda>is_placeholder.
     if is_placeholder
     then Exited
            [''You must configure the CDK app by editing ./s3_bucket_files/cdk_app.yaml'']
            1 this
     else
      (let v = ec2_Vpc \<lparr>maxAzs = 2, natGateways = 0\<rparr>;
           this = new_construct ''CloudMapperVpc'' this;
           (exclude_condition, this) =
             new_CfnCondition ''exclude-default-route-subnet''
               (conditionEquals (Literal (JBool True)) (Literal (JBool False))) this;
           v = suppress_routes exclude_condition v;
           this = this\<lparr>stack_vpc := Some v\<rparr>;
           this = new_construct ''Cluster'' this;
           this = new_construct ''taskDefinition'' this
       in
       or_throw (config_get config ''s3_bucket'') this (\<lambda>bucket.
       let this = this\<lparr>containerEnvironment := [(''S3_BUCKET'', bucket)]\<rparr> in
       or_throw (config_get config ''iam_role'') this (\<lambda>role.
       or_throw (js_concat ''arn:aws:iam::*:role/'' role) this (\<lambda>role_arn.
       let this = addToTaskRolePolicy
                    \<lparr>resources = [JStr role_arn],
                     actions = [''sts:AssumeRole''], statement_conditions = []\<rparr> this in
       or_throw (config_get config ''s3_bucket'') this (\<lambda>bucket.
       or_throw (js_concat ''arn:aws:s3:::'' bucket) this (\<lambda>bucket_arn.
       let this = addToTaskRolePolicy
                    \<lparr>resources = [JStr bucket_arn],
                     actions = [''s3:ListBucket''], statement_conditions = []\<rparr> this in
       or_throw (config_get config ''s3_bucket'') this (\<lambda>bucket.
       or_throw (js_concat ''arn:aws:s3:::'' bucket) this (\<lambda>bucket_arn.
       let this = addToTaskRolePolicy
                    \<lparr>resources = [JStr (bucket_arn @ ''/*'')],
                     actions = [''s3:GetObject'', ''s3:PutObject'', ''s3:DeleteObject''],
                     statement_conditions = []\<rparr> this;
           this = addToTaskRolePolicy
                    \<lparr>resources = [JStr ''*''], actions = [''logs:*''],
                     statement_conditions = []\<rparr> this;
           this = addToTaskRolePolicy
                    \<lparr>resources = [JStr ''*''], actions = [''cloudwatch:PutMetricData''],
                     statement_conditions = []\<rparr> this;
           this = addToTaskRolePolicy
                    \<lparr>resources = [JStr ''*''], actions = [''secretsmanager:GetSecretValue''],
                     statement_conditions =
                       [(''ForAnyValue:StringLike'', ''secretsmanager:SecretId'',
                         ''*cloudmapper-slack-webhook*'')]\<rparr> this;
           this = new_construct ''scheduled_run'' this;
           this = new_construct ''manual_run'' this;
           this = new_construct ''error_alarm'' this;
           this = new_construct ''cloudmapper_alarm'' this
       in
       or_throw (config_get config ''alarm_sns_arn'') this (\<lambda>alarm.
       let this = new_construct ''alarm_forwarder'' this;
           this = this\<lparr>functionEnvironment := [(''ALARM_SNS'', alarm)]\<rparr>
       in
       or_throw (config_get config ''alarm_sns_arn'') this (\<lambda>alarm.
       Constructed
         (addToRolePolicy
            \<lparr>resources = [alarm], actions = [''sns:Publish''],
             statement_conditions = []\<rparr> this)))))))))))))"

subsection \<open>Conditions at deployment\<close>

text \<open>
  Modelled from the spec: the value of an operand when the template is deployed, which
  CloudFormation computes and this repository does not. The spec speaks of provisioning-time
  values substituted for parameters: a literal is its own value, a parameter reference is
  the value substituted for the parameter.
\<close>

fun resolve :: "(string \<Rightarrow> js_value) \<Rightarrow> cfn_operand \<Rightarrow> js_value" where
  "resolve params (Literal v) = v"
| "resolve params (ParameterRef p) = params p"

text \<open>
  Modelled from the spec: the evaluation of a creation condition, which is
  CloudFormation's. The spec describes the condition as a boolean expression over
  provisioning-time values, here the equality of its two operands.
\<close>

fun eval_condition :: "(string \<Rightarrow> js_value) \<Rightarrow> cfn_condition_expression \<Rightarrow> bool" where
  "eval_condition params (FnEquals lhs rhs) = (resolve params lhs = resolve params rhs)"

text \<open>
  Modelled from the spec: whether CloudFormation creates a resource. The spec says that
  a resource whose creation condition is false is not materialized; a resource without a
  condition always is.
\<close>

definition materialized ::
  "cfn_condition list \<Rightarrow> (string \<Rightarrow> js_value) \<Rightarrow> cfn_resource \<Rightarrow> bool" where
  "materialized conds params r =
     (case condition (cfnOptions r) of
        None \<Rightarrow> True
      | Some c \<Rightarrow> c < length conds \<and> eval_condition params (expression (conds ! c)))"

subsection \<open>Notions used to state the properties\<close>

text \<open>The child at position \<open>j\<close> of the private subnet at position \<open>i\<close>.\<close>

definition private_child :: "vpc \<Rightarrow> nat \<Rightarrow> nat \<Rightarrow> cfn_resource" where
  "private_child v i j = children (node (privateSubnets v ! i)) ! j"

text \<open>The routes of the private subnets that carry the condition \<open>e\<close>.\<close>

definition suppressed_routes :: "nat \<Rightarrow> vpc \<Rightarrow> cfn_resource list" where
  "suppressed_routes e v =
     concat (map (\<lambda>s. filter (\<lambda>c. is_CfnRoute c \<and> condition (cfnOptions c) = Some e)
                          (children (node s)))
                 (privateSubnets v))"

text \<open>A subnet with the condition slot of each of its routes cleared.\<close>

definition clear_route_conditions :: "subnet \<Rightarrow> subnet" where
  "clear_route_conditions s =
     s\<lparr>node := (node s)\<lparr>children :=
        map (\<lambda>c. if is_CfnRoute c then c\<lparr>cfnOptions := (cfnOptions c)\<lparr>condition := None\<rparr>\<rparr> else c)
            (children (node s))\<rparr>\<rparr>"

subsection \<open>A network and a configuration to run the constructor on\<close>

definition resource :: "string \<Rightarrow> string \<Rightarrow> (string \<times> string) list \<Rightarrow> cfn_resource" where
  "resource cls ident props =
     \<lparr>constructor_name = cls, resource_id = ident,
      cfnOptions = \<lparr>condition = None, other_options = []\<rparr>, properties = props\<rparr>"

definition sample_subnet :: "string \<Rightarrow> string \<Rightarrow> string \<times> string \<Rightarrow> subnet" where
  "sample_subnet ident az target =
     \<lparr>node = \<lparr>node_id = ident,
              children =
                [resource ''CfnSubnet'' ''Subnet'' [(''availabilityZone'', az)],
                 resource ''CfnRouteTable'' ''RouteTable'' [],
                 resource ''CfnSubnetRouteTableAssociation'' ''RouteTableAssociation'' [],
                 resource ''CfnRoute'' ''DefaultRoute''
                   [(''destinationCidrBlock'', ''0.0.0.0/0''), target]]\<rparr>,
      availabilityZone = az\<rparr>"

definition sample_vpc :: vpc where
  "sample_vpc =
     \<lparr>publicSubnets =
        [sample_subnet ''PublicSubnet1'' ''az1'' (''gatewayId'', ''igw''),
         sample_subnet ''PublicSubnet2'' ''az2'' (''gatewayId'', ''igw'')],
      privateSubnets =
        [sample_subnet ''PrivateSubnet1'' ''az1'' (''natGatewayId'', ''nat''),
         sample_subnet ''PrivateSubnet2'' ''az2'' (''natGatewayId'', ''nat'')],
      isolatedSubnets = []\<rparr>"

text \<open>A private subnet whose children include no route.\<close>

definition routeless_subnet :: "string \<Rightarrow> string \<Rightarrow> subnet" where
  "routeless_subnet ident az =
     \<lparr>node = \<lparr>node_id = ident,
              children =
                [resource ''CfnSubnet'' ''Subnet'' [(''availabilityZone'', az)],
                 resource ''CfnRouteTable'' ''RouteTable'' [],
                 resource ''CfnSubnetRouteTableAssociation'' ''RouteTableAssociation'' []]\<rparr>,
      availabilityZone = az\<rparr>"

definition routeless_vpc :: vpc where
  "routeless_vpc =
     \<lparr>publicSubnets =
        [sample_subnet ''PublicSubnet1'' ''az1'' (''gatewayId'', ''igw'')],
      privateSubnets = [routeless_subnet ''PrivateSubnet1'' ''az1''],
      isolatedSubnets = []\<rparr>"

definition sample_library :: "vpc_props \<Rightarrow> vpc" where
  "sample_library props = sample_vpc"

definition routeless_library :: "vpc_props \<Rightarrow> vpc" where
  "routeless_library props = routeless_vpc"

definition sample_config :: js_value where
  "sample_config =
     JObj [(''s3_bucket'', JStr ''acme-cloudmapper''),
           (''iam_role'', JStr ''audit''),
           (''alarm_sns_arn'', JStr ''arn:aws:sns:us-east-1:000000000000:alarms'')]"

definition default_config :: js_value where
  "default_config =
     JObj [(''s3_bucket'', JStr ''MYCOMPANY-cloudmapper''),
           (''iam_role'', JStr ''SecurityAuditor''),
           (''alarm_sns_arn'', JStr ''arn:aws:sns:us-east-1:000000000000:alarms'')]"

text \<open>A configuration that names the role only: the bucket and the alarm topic are absent.\<close>

definition role_only_config :: js_value where
  "role_only_config = JObj [(''iam_role'', JStr ''SecurityAuditor'')]"

text \<open>
  Configurations in which a field is a mapping with a key \<^verbatim>\<open>toString\<close>, as the
  YAML \<^verbatim>\<open>s3_bucket: {toString: x}\<close> and \<^verbatim>\<open>iam_role: {toString: x}\<close> give.
\<close>

definition bucket_mapping_config :: js_value where
  "bucket_mapping_config = JObj [(''s3_bucket'', JObj [(''toString'', JStr ''x'')])]"

definition role_mapping_config :: js_value where
  "role_mapping_config = JObj [(''iam_role'', JObj [(''toString'', JStr ''x'')])]"

section \<open>Properties\<close>

subsection \<open>The loops\<close>

text \<open>
  After \<open>i\<close> steps the loop has left the first \<open>i\<close> elements as they are now and
  will apply its body to each of the others, once and in order.
\<close>

lemma for_of_take_drop: "for_of body xs i = take i xs @ map body (drop i xs)"
proof (induction body xs i rule: for_of.induct)
  case (1 body xs i)
  show ?case
  proof (cases "i < length xs")
    case True
    let ?xs' = "xs[i := body (xs ! i)]"
    have "for_of body xs i = for_of body ?xs' (Suc i)"
      using True by (subst for_of.simps) simp
    also have "\<dots> = take (Suc i) ?xs' @ map body (drop (Suc i) ?xs')"
      using "1.IH" True by simp
    also have "\<dots> = (take i xs @ [body (xs ! i)]) @ map body (drop (Suc i) xs)"
      using True by (simp add: take_Suc_conv_app_nth)
    also have "\<dots> = take i xs @ map body (xs ! i # drop (Suc i) xs)"
      by simp
    also have "xs ! i # drop (Suc i) xs = drop i xs"
      using True by (rule Cons_nth_drop_Suc)
    finally show ?thesis .
  next
    case False
    then show ?thesis by (subst for_of.simps) simp
  qed
qed

lemma for_of_map: "for_of body xs 0 = map body xs"
  by (simp add: for_of_take_drop)

lemma for_of_terminates: "for_of_dom (body, xs, i)"
  by (induction body xs i rule: for_of.induct) (rule for_of.domintros, simp)

lemma suppress_subnet_eq:
  "suppress_subnet e s =
     s\<lparr>node := (node s)\<lparr>children := map (suppress_child e) (children (node s))\<rparr>\<rparr>"
  by (simp add: suppress_subnet_def for_of_map)

lemma suppress_routes_eq:
  "suppress_routes e v = v\<lparr>privateSubnets := map (suppress_subnet e) (privateSubnets v)\<rparr>"
  by (simp add: suppress_routes_def for_of_map)

lemma children_suppress_subnet:
  "children (node (suppress_subnet e s)) = map (suppress_child e) (children (node s))"
  by (simp add: suppress_subnet_eq)

lemma privateSubnets_suppress_routes:
  "privateSubnets (suppress_routes e v) = map (suppress_subnet e) (privateSubnets v)"
  by (simp add: suppress_routes_eq)

lemma publicSubnets_suppress_routes:
  "publicSubnets (suppress_routes e v) = publicSubnets v"
  by (simp add: suppress_routes_eq)

lemma isolatedSubnets_suppress_routes:
  "isolatedSubnets (suppress_routes e v) = isolatedSubnets v"
  by (simp add: suppress_routes_eq)

subsection \<open>The body of the inner loop\<close>



lemma suppress_child_other: "\<not> is_CfnRoute c \<Longrightarrow> suppress_child e c = c"
  by (simp add: suppress_child_def)

lemma suppress_child_twice: "suppress_child e' (suppress_child e c) = suppress_child e' c"
  by (simp add: suppress_child_def is_CfnRoute_def)

lemma suppress_subnet_twice: "suppress_subnet e' (suppress_subnet e s) = suppress_subnet e' s"
  by (simp add: suppress_subnet_eq suppress_child_twice comp_def)

lemma suppress_routes_twice: "suppress_routes e' (suppress_routes e v) = suppress_routes e' v"
  by (simp add: suppress_routes_eq suppress_subnet_twice comp_def)


lemma clear_suppress_child:
  "(if is_CfnRoute (suppress_child e c)
    then (suppress_child e c)\<lparr>cfnOptions := (cfnOptions (suppress_child e c))\<lparr>condition := None\<rparr>\<rparr>
    else suppress_child e c) =
   (if is_CfnRoute c then c\<lparr>cfnOptions := (cfnOptions c)\<lparr>condition := None\<rparr>\<rparr> else c)"
  by (simp add: suppress_child_def is_CfnRoute_def)

lemma clear_suppress_subnet:
  "clear_route_conditions (suppress_subnet e s) = clear_route_conditions s"
  by (simp add: clear_route_conditions_def suppress_subnet_eq comp_def clear_suppress_child)

subsection \<open>Reading and converting configuration values\<close>

lemma config_get_other_key:
  assumes "config_get config key = Inr v"
  shows "\<exists>v'. config_get config key' = Inr v'"
  using assms by (cases config) simp_all

lemma config_get_absent:
  "config_get (JObj kvs) key = Inr JUndefined \<longleftrightarrow>
     map_of kvs key = None \<or> map_of kvs key = Some JUndefined"
  by (simp split: option.splits)

lemma equals_placeholder_to_string:
  assumes "equals_placeholder v = Inr b"
  shows "\<exists>s. to_string v = Inr s"
proof (cases v)
  case (JArr xs)
  with assms show ?thesis by (cases "to_string (JArr xs)") simp_all
next
  case (JObj kvs)
  with assms show ?thesis by (cases "to_string (JObj kvs)") simp_all
qed simp_all

lemma placeholder_test_fields:
  assumes "placeholder_test config = Inr b"
  shows "\<exists>bucket s. config_get config ''s3_bucket'' = Inr bucket
           \<and> equals_placeholder bucket = Inr b \<and> to_string bucket = Inr s"
proof -
  from assms obtain bucket where bucket: "config_get config ''s3_bucket'' = Inr bucket"
    and eq: "equals_placeholder bucket = Inr b"
    by (cases "config_get config ''s3_bucket''") (simp_all add: placeholder_test_def)
  from eq obtain s where "to_string bucket = Inr s"
    using equals_placeholder_to_string by blast
  with bucket eq show ?thesis by blast
qed

subsection \<open>The constructor\<close>

lemma constructor_throws_at_test:
  assumes "placeholder_test config = Inl e"
  shows "CloudmapperauditorStack ec2_Vpc config = Threw e empty_stack"
  using assms by (simp add: CloudmapperauditorStack_def or_throw_def)

lemma constructor_halts:
  assumes "placeholder_test config = Inr True"
  shows "CloudmapperauditorStack ec2_Vpc config =
     Exited [''You must configure the CDK app by editing ./s3_bucket_files/cdk_app.yaml'']
       1 empty_stack"
  using assms by (simp add: CloudmapperauditorStack_def or_throw_def)

lemma constructor_proceeds:
  assumes "placeholder_test config = Inr False"
    and "config_get config ''s3_bucket'' = Inr bucket" and "to_string bucket = Inr b"
    and "config_get config ''iam_role'' = Inr role" and "to_string role = Inr r"
    and "config_get config ''alarm_sns_arn'' = Inr alarm"
  shows "CloudmapperauditorStack ec2_Vpc config = Constructed
    \<lparr>constructs = [''CloudMapperVpc'', ''exclude-default-route-subnet'', ''Cluster'',
         ''taskDefinition'', ''scheduled_run'', ''manual_run'', ''error_alarm'',
         ''cloudmapper_alarm'', ''alarm_forwarder''],
     cfn_conditions = [\<lparr>logical_id = ''exclude-default-route-subnet'',
         expression = conditionEquals (Literal (JBool True)) (Literal (JBool False))\<rparr>],
     stack_vpc = Some (suppress_routes 0 (ec2_Vpc \<lparr>maxAzs = 2, natGateways = 0\<rparr>)),
     containerEnvironment = [(''S3_BUCKET'', bucket)],
     taskRolePolicy =
       [\<lparr>resources = [JStr (''arn:aws:iam::*:role/'' @ r)],
         actions = [''sts:AssumeRole''], statement_conditions = []\<rparr>,
        \<lparr>resources = [JStr (''arn:aws:s3:::'' @ b)],
         actions = [''s3:ListBucket''], statement_conditions = []\<rparr>,
        \<lparr>resources = [JStr (''arn:aws:s3:::'' @ b @ ''/*'')],
         actions = [''s3:GetObject'', ''s3:PutObject'', ''s3:DeleteObject''],
         statement_conditions = []\<rparr>,
        \<lparr>resources = [JStr ''*''], actions = [''logs:*''], statement_conditions = []\<rparr>,
        \<lparr>resources = [JStr ''*''], actions = [''cloudwatch:PutMetricData''],
         statement_conditions = []\<rparr>,
        \<lparr>resources = [JStr ''*''], actions = [''secretsmanager:GetSecretValue''],
         statement_conditions =
           [(''ForAnyValue:StringLike'', ''secretsmanager:SecretId'',
             ''*cloudmapper-slack-webhook*'')]\<rparr>],
     functionEnvironment = [(''ALARM_SNS'', alarm)],
     functionRolePolicy =
       [\<lparr>resources = [alarm], actions = [''sns:Publish''], statement_conditions = []\<rparr>]\<rparr>"
  using assms
  by (simp add: CloudmapperauditorStack_def or_throw_def Let_def empty_stack_def
      new_construct_def new_CfnCondition_def addToTaskRolePolicy_def addToRolePolicy_def
      js_concat_def)

text \<open>
  When the role cannot be converted, the exception leaves the constructor after the
  network, the cluster and the task definition are declared and before any statement is
  added to the task role.
\<close>

lemma constructor_throws_at_role:
  assumes "placeholder_test config = Inr False"
    and "config_get config ''s3_bucket'' = Inr bucket"
    and "config_get config ''iam_role'' = Inr role" and "to_string role = Inl e"
  shows "CloudmapperauditorStack ec2_Vpc config = Threw e
    \<lparr>constructs = [''CloudMapperVpc'', ''exclude-default-route-subnet'', ''Cluster'',
         ''taskDefinition''],
     cfn_conditions = [\<lparr>logical_id = ''exclude-default-route-subnet'',
         expression = conditionEquals (Literal (JBool True)) (Literal (JBool False))\<rparr>],
     stack_vpc = Some (suppress_routes 0 (ec2_Vpc \<lparr>maxAzs = 2, natGateways = 0\<rparr>)),
     containerEnvironment = [(''S3_BUCKET'', bucket)],
     taskRolePolicy = [], functionEnvironment = [], functionRolePolicy = []\<rparr>"
  using assms
  by (simp add: CloudmapperauditorStack_def or_throw_def Let_def empty_stack_def
      new_construct_def new_CfnCondition_def js_concat_def)

text \<open>What every stack the constructor returns holds.\<close>

lemma constructed_stack:
  assumes "CloudmapperauditorStack ec2_Vpc config = Constructed this"
  shows "placeholder_test config = Inr False
    \<and> constructs this = [''CloudMapperVpc'', ''exclude-default-route-subnet'', ''Cluster'',
         ''taskDefinition'', ''scheduled_run'', ''manual_run'', ''error_alarm'',
         ''cloudmapper_alarm'', ''alarm_forwarder'']
    \<and> cfn_conditions this = [\<lparr>logical_id = ''exclude-default-route-subnet'',
         expression = conditionEquals (Literal (JBool True)) (Literal (JBool False))\<rparr>]
    \<and> stack_vpc this = Some (suppress_routes 0 (ec2_Vpc \<lparr>maxAzs = 2, natGateways = 0\<rparr>))"
proof -
  have test: "placeholder_test config = Inr False"
  proof (cases "placeholder_test config")
    case (Inl e)
    with assms show ?thesis by (simp add: constructor_throws_at_test)
  next
    case (Inr b)
    with assms show ?thesis by (cases b) (simp_all add: constructor_halts)
  qed
  then obtain bucket b where bucket: "config_get config ''s3_bucket'' = Inr bucket"
    and b: "to_string bucket = Inr b"
    using placeholder_test_fields by blast
  from bucket obtain role alarm where role: "config_get config ''iam_role'' = Inr role"
    and alarm: "config_get config ''alarm_sns_arn'' = Inr alarm"
    using config_get_other_key by blast
  show ?thesis
  proof (cases "to_string role")
    case (Inl e)
    with assms constructor_throws_at_role [OF test bucket role, of e ec2_Vpc]
    show ?thesis by simp
  next
    case (Inr r)
    with assms constructor_proceeds [OF test bucket b role _ alarm, of r ec2_Vpc] test
    show ?thesis by auto
  qed
qed

lemma exclude_expression_false:
  "\<not> eval_condition params (conditionEquals (Literal (JBool True)) (Literal (JBool False)))"
  by (simp add: conditionEquals_def)

text \<open>Facts about the sample inputs.\<close>

lemma sample_config_fields:
  "placeholder_test sample_config = Inr False"
  "config_get sample_config ''s3_bucket'' = Inr (JStr ''acme-cloudmapper'')"
  "config_get sample_config ''iam_role'' = Inr (JStr ''audit'')"
  "config_get sample_config ''alarm_sns_arn'' =
     Inr (JStr ''arn:aws:sns:us-east-1:000000000000:alarms'')"
  by (simp_all add: sample_config_def placeholder_test_def placeholder_def)

lemma sample_constructed:
  "\<exists>this. CloudmapperauditorStack ec2_Vpc sample_config = Constructed this"
  using constructor_proceeds [OF sample_config_fields(1) sample_config_fields(2) _
      sample_config_fields(3) _ sample_config_fields(4), of _ _ ec2_Vpc]
  by simp

lemma default_config_placeholder: "placeholder_test default_config = Inr True"
  by (simp add: default_config_def placeholder_test_def placeholder_def)

section \<open>The claims\<close>




text \<open>
  C2. In every stack the constructor returns there is one condition, the equality of the
  literals true and false. Under every assignment of values to the template parameters it
  evaluates to false, so a resource whose condition slot refers to it is not materialized.
\<close>

theorem exclude_condition_is_never_true:
  assumes "CloudmapperauditorStack ec2_Vpc config = Constructed this"
  shows "\<exists>exclude_condition. cfn_conditions this = [exclude_condition]
         \<and> expression exclude_condition =
             conditionEquals (Literal (JBool True)) (Literal (JBool False))
         \<and> (\<forall>params. \<not> eval_condition params (expression exclude_condition))
         \<and> (\<forall>params r. condition (cfnOptions r) = Some 0 \<longrightarrow>
               \<not> materialized (cfn_conditions this) params r)"
proof -
  from constructed_stack [OF assms]
  have "cfn_conditions this = [\<lparr>logical_id = ''exclude-default-route-subnet'',
         expression = conditionEquals (Literal (JBool True)) (Literal (JBool False))\<rparr>]"
    by simp
  then show ?thesis
    by (simp add: materialized_def exclude_expression_false)
qed

theorem exclude_condition_is_never_true_witness:
  "\<exists>this v. CloudmapperauditorStack (\<lambda>props. sample_vpc) sample_config = Constructed this
     \<and> stack_vpc this = Some v
     \<and> condition (cfnOptions (private_child v 0 3)) = Some 0
     \<and> \<not> materialized (cfn_conditions this) (\<lambda>p. JBool True) (private_child v 0 3)
     \<and> \<not> eval_condition (\<lambda>p. JBool False) (expression (cfn_conditions this ! 0))
     \<and> materialized (cfn_conditions this) (\<lambda>p. JBool True) (private_child v 0 1)"
proof -
  let ?v = "suppress_routes 0 sample_vpc"
  obtain st where c: "CloudmapperauditorStack (\<lambda>props. sample_vpc) sample_config = Constructed st"
    using sample_constructed by blast
  have v: "stack_vpc st = Some ?v"
    using constructed_stack [OF c] by simp
  have r: "condition (cfnOptions (private_child ?v 0 3)) = Some 0"
    "condition (cfnOptions (private_child ?v 0 1)) = None"
    by (simp_all add: private_child_def privateSubnets_suppress_routes children_suppress_subnet
        suppress_child_def is_CfnRoute_def sample_vpc_def sample_subnet_def resource_def)
  from exclude_condition_is_never_true [OF c] r c v
  show ?thesis by (auto simp add: materialized_def)
qed

text \<open>
  C3. The suppressor touches nothing but the condition slot of the routes of the private
  subnets. The public (and isolated) subnets come out as they went in, so a child of a
  public subnet that had no condition, its route to the internet gateway among them,
  still has none. The private subnets come out equal to what they were up to the condition
  slot of their \<^verbatim>\<open>CfnRoute\<close> children. The same holds of the network in the stack
  the constructor returns, against the network the library built.
\<close>

theorem suppressor_frame:
  "publicSubnets (suppress_routes e v) = publicSubnets v
   \<and> isolatedSubnets (suppress_routes e v) = isolatedSubnets v
   \<and> map clear_route_conditions (privateSubnets (suppress_routes e v)) =
       map clear_route_conditions (privateSubnets v)
   \<and> ((\<forall>s \<in> set (publicSubnets v). \<forall>c \<in> set (children (node s)).
          condition (cfnOptions c) = None) \<longrightarrow>
       (\<forall>s \<in> set (publicSubnets (suppress_routes e v)). \<forall>c \<in> set (children (node s)).
          condition (cfnOptions c) = None))
   \<and> (CloudmapperauditorStack ec2_Vpc config = Constructed this \<longrightarrow>
        (\<exists>v'. stack_vpc this = Some v'
           \<and> publicSubnets v' = publicSubnets (ec2_Vpc \<lparr>maxAzs = 2, natGateways = 0\<rparr>)
           \<and> isolatedSubnets v' = isolatedSubnets (ec2_Vpc \<lparr>maxAzs = 2, natGateways = 0\<rparr>)
           \<and> map clear_route_conditions (privateSubnets v') =
               map clear_route_conditions
                 (privateSubnets (ec2_Vpc \<lparr>maxAzs = 2, natGateways = 0\<rparr>))))"
proof -
  have priv_eq: "map clear_route_conditions (privateSubnets (suppress_routes e' w)) =
       map clear_route_conditions (privateSubnets w)" for e' w
    by (simp add: privateSubnets_suppress_routes comp_def clear_suppress_subnet)
  have built: "\<exists>v'. stack_vpc this = Some v'
           \<and> publicSubnets v' = publicSubnets (ec2_Vpc \<lparr>maxAzs = 2, natGateways = 0\<rparr>)
           \<and> isolatedSubnets v' = isolatedSubnets (ec2_Vpc \<lparr>maxAzs = 2, natGateways = 0\<rparr>)
           \<and> map clear_route_conditions (privateSubnets v') =
               map clear_route_conditions
                 (privateSubnets (ec2_Vpc \<lparr>maxAzs = 2, natGateways = 0\<rparr>))"
    if c: "CloudmapperauditorStack ec2_Vpc config = Constructed this"
  proof -
    from constructed_stack [OF c]
    have "stack_vpc this = Some (suppress_routes 0 (ec2_Vpc \<lparr>maxAzs = 2, natGateways = 0\<rparr>))"
      by simp
    then show ?thesis
      by (simp add: publicSubnets_suppress_routes isolatedSubnets_suppress_routes priv_eq)
  qed
  show ?thesis
    using priv_eq [of e v] built
    by (simp add: publicSubnets_suppress_routes isolatedSubnets_suppress_routes)
qed

theorem suppressor_frame_witness:
  "map (\<lambda>s. map (\<lambda>c. condition (cfnOptions c)) (children (node s))) (publicSubnets sample_vpc) =
       [[None, None, None, None], [None, None, None, None]]
   \<and> map (\<lambda>s. map (\<lambda>c. condition (cfnOptions c)) (children (node s)))
         (publicSubnets (suppress_routes 0 sample_vpc)) =
       [[None, None, None, None], [None, None, None, None]]
   \<and> (\<exists>this v'. CloudmapperauditorStack (\<lambda>props. sample_vpc) sample_config = Constructed this
         \<and> stack_vpc this = Some v'
         \<and> publicSubnets v' = publicSubnets sample_vpc
         \<and> map clear_route_conditions (privateSubnets v') =
             map clear_route_conditions (privateSubnets sample_vpc))"
proof -
  obtain st where c: "CloudmapperauditorStack (\<lambda>props. sample_vpc) sample_config = Constructed st"
    using sample_constructed by blast
  have p: "map (\<lambda>s. map (\<lambda>c. condition (cfnOptions c)) (children (node s)))
      (publicSubnets sample_vpc) = [[None, None, None, None], [None, None, None, None]]"
    by (simp add: sample_vpc_def sample_subnet_def resource_def)
  from suppressor_frame [of 0 sample_vpc "\<lambda>props. sample_vpc" sample_config st] c p
  show ?thesis by (elim conjE) auto
qed

text \<open>
  C4. The test \<^verbatim>\<open>config['s3_bucket'] == 'MYCOMPANY-cloudmapper'\<close> has three
  outcomes. When it is true, the constructor prints the message for the operator and ends
  the process with status 1 while the stack is still empty: no construct, no condition,
  no VPC. When it is false, construction proceeds: the network, the condition, the
  cluster and the task definition are declared, and the constructor returns the stack
  with all nine constructs unless the conversion of the role to a string throws. When
  the test itself throws (the configuration is \<^verbatim>\<open>undefined\<close> or null, or the
  bucket is a mapping with a key \<^verbatim>\<open>toString\<close>), the exception leaves the
  constructor while the stack is still empty. For a bucket that is a string the test is
  true exactly when the string is the placeholder.
\<close>

theorem placeholder_configuration_halts:
  "(placeholder_test config = Inr True \<longrightarrow>
      CloudmapperauditorStack ec2_Vpc config =
        Exited [''You must configure the CDK app by editing ./s3_bucket_files/cdk_app.yaml'']
          1 empty_stack
      \<and> constructs empty_stack = [] \<and> cfn_conditions empty_stack = []
      \<and> stack_vpc empty_stack = None \<and> taskRolePolicy empty_stack = [])
   \<and> (placeholder_test config = Inl e \<longrightarrow>
      CloudmapperauditorStack ec2_Vpc config = Threw e empty_stack)
   \<and> (placeholder_test config = Inr False \<longrightarrow>
      (\<exists>this role. config_get config ''iam_role'' = Inr role
         \<and> stack_vpc this \<noteq> None
         \<and> (CloudmapperauditorStack ec2_Vpc config = Constructed this
              \<and> (\<exists>r. to_string role = Inr r)
              \<and> constructs this =
                  [''CloudMapperVpc'', ''exclude-default-route-subnet'', ''Cluster'',
                   ''taskDefinition'', ''scheduled_run'', ''manual_run'', ''error_alarm'',
                   ''cloudmapper_alarm'', ''alarm_forwarder'']
            \<or> CloudmapperauditorStack ec2_Vpc config = Threw TypeError this
              \<and> to_string role = Inl TypeError
              \<and> constructs this =
                  [''CloudMapperVpc'', ''exclude-default-route-subnet'', ''Cluster'',
                   ''taskDefinition''])))
   \<and> (config_get config ''s3_bucket'' = Inr (JStr s) \<longrightarrow>
        placeholder_test config = Inr (s = ''MYCOMPANY-cloudmapper''))"
proof -
  have halts: "CloudmapperauditorStack ec2_Vpc config =
        Exited [''You must configure the CDK app by editing ./s3_bucket_files/cdk_app.yaml'']
          1 empty_stack"
    if "placeholder_test config = Inr True"
    using that by (rule constructor_halts)
  have throws: "CloudmapperauditorStack ec2_Vpc config = Threw e empty_stack"
    if "placeholder_test config = Inl e"
    using that by (rule constructor_throws_at_test)
  have proceeds: "\<exists>this role. config_get config ''iam_role'' = Inr role
         \<and> stack_vpc this \<noteq> None
         \<and> (CloudmapperauditorStack ec2_Vpc config = Constructed this
              \<and> (\<exists>r. to_string role = Inr r)
              \<and> constructs this =
                  [''CloudMapperVpc'', ''exclude-default-route-subnet'', ''Cluster'',
                   ''taskDefinition'', ''scheduled_run'', ''manual_run'', ''error_alarm'',
                   ''cloudmapper_alarm'', ''alarm_forwarder'']
            \<or> CloudmapperauditorStack ec2_Vpc config = Threw TypeError this
              \<and> to_string role = Inl TypeError
              \<and> constructs this =
                  [''CloudMapperVpc'', ''exclude-default-route-subnet'', ''Cluster'',
                   ''taskDefinition''])"
    if test: "placeholder_test config = Inr False"
  proof -
    from test obtain bucket b where bucket: "config_get config ''s3_bucket'' = Inr bucket"
      and b: "to_string bucket = Inr b"
      using placeholder_test_fields by blast
    from bucket obtain role alarm where role: "config_get config ''iam_role'' = Inr role"
      and alarm: "config_get config ''alarm_sns_arn'' = Inr alarm"
      using config_get_other_key by blast
    show ?thesis
    proof (cases "to_string role")
      case (Inl e)
      then have "to_string role = Inl TypeError"
        by (cases e) simp
      with constructor_throws_at_role [OF test bucket role this, of ec2_Vpc] role
      show ?thesis by simp
    next
      case (Inr r)
      with constructor_proceeds [OF test bucket b role Inr alarm, of ec2_Vpc] role
      show ?thesis by simp
    qed
  qed
  have string: "placeholder_test config = Inr (s = ''MYCOMPANY-cloudmapper'')"
    if "config_get config ''s3_bucket'' = Inr (JStr s)"
    using that by (simp add: placeholder_test_def placeholder_def)
  have empty: "constructs empty_stack = []" "cfn_conditions empty_stack = []"
    "stack_vpc empty_stack = None" "taskRolePolicy empty_stack = []"
    by (simp_all add: empty_stack_def)
  show ?thesis
    using halts throws proceeds string empty by blast
qed

theorem placeholder_configuration_halts_witness:
  "placeholder_test default_config = Inr True
   \<and> CloudmapperauditorStack sample_library default_config =
        Exited [''You must configure the CDK app by editing ./s3_bucket_files/cdk_app.yaml'']
          1 empty_stack
   \<and> placeholder_test sample_config = Inr False
   \<and> is_Constructed (CloudmapperauditorStack sample_library sample_config)
   \<and> length (constructs (stack_of (CloudmapperauditorStack sample_library sample_config))) = 9
   \<and> placeholder_test JUndefined = Inl TypeError
   \<and> CloudmapperauditorStack sample_library JUndefined = Threw TypeError empty_stack
   \<and> config_get sample_config ''s3_bucket'' = Inr (JStr ''acme-cloudmapper'')"
proof -
  have u: "placeholder_test JUndefined = Inl TypeError"
    by (simp add: placeholder_test_def)
  have r: "to_string (JStr ''audit'') = Inr ''audit''"
    by simp
  from placeholder_configuration_halts [of default_config sample_library TypeError "''x''"]
    default_config_placeholder
  have d: "CloudmapperauditorStack sample_library default_config =
        Exited [''You must configure the CDK app by editing ./s3_bucket_files/cdk_app.yaml'']
          1 empty_stack"
    by blast
  from placeholder_configuration_halts [of JUndefined sample_library TypeError "''x''"] u
  have t: "CloudmapperauditorStack sample_library JUndefined = Threw TypeError empty_stack"
    by blast
  from placeholder_configuration_halts [of sample_config sample_library TypeError "''x''"]
    sample_config_fields(1)
  obtain this role where "config_get sample_config ''iam_role'' = Inr role"
    and o: "CloudmapperauditorStack sample_library sample_config = Constructed this
              \<and> constructs this =
                  [''CloudMapperVpc'', ''exclude-default-route-subnet'', ''Cluster'',
                   ''taskDefinition'', ''scheduled_run'', ''manual_run'', ''error_alarm'',
                   ''cloudmapper_alarm'', ''alarm_forwarder'']
            \<or> CloudmapperauditorStack sample_library sample_config = Threw TypeError this
              \<and> to_string role = Inl TypeError"
    by blast
  then have "role = JStr ''audit''"
    by (simp add: sample_config_fields)
  with o r have "CloudmapperauditorStack sample_library sample_config = Constructed this
      \<and> length (constructs this) = 9"
    by auto
  with d t u default_config_placeholder sample_config_fields show ?thesis
    by simp
qed

text \<open>
  With \<^verbatim>\<open>s3_bucket: {toString: x}\<close> the bucket is not the placeholder, and yet
  construction does not proceed: the comparison throws, and the constructor is left with
  the stack still empty, neither through \<^verbatim>\<open>process.exit\<close> nor by returning.
\<close>

theorem placeholder_configuration_counterexample:
  "config_get bucket_mapping_config ''s3_bucket'' = Inr (JObj [(''toString'', JStr ''x'')])
   \<and> CloudmapperauditorStack sample_library bucket_mapping_config = Threw TypeError empty_stack
   \<and> \<not> is_Exited (CloudmapperauditorStack sample_library bucket_mapping_config)
   \<and> \<not> is_Constructed (CloudmapperauditorStack sample_library bucket_mapping_config)"
proof -
  have "placeholder_test bucket_mapping_config = Inl TypeError"
    by (simp add: bucket_mapping_config_def placeholder_test_def)
  then have "CloudmapperauditorStack sample_library bucket_mapping_config =
      Threw TypeError empty_stack"
    by (rule constructor_throws_at_test)
  then show ?thesis
    by (simp add: bucket_mapping_config_def)
qed

text \<open>
  C6. Running the suppressor a second time changes nothing: the network after two runs
  is the network after one, so the suppressed routes are the same routes, each with its
  one condition slot holding the same reference, and the subnets are as many as before.
  A run with another condition only replaces the reference in the same slots.
\<close>

theorem suppressor_idempotent:
  "suppress_routes e (suppress_routes e v) = suppress_routes e v
   \<and> suppressed_routes e (suppress_routes e (suppress_routes e v)) =
       suppressed_routes e (suppress_routes e v)
   \<and> length (privateSubnets (suppress_routes e (suppress_routes e v))) =
       length (privateSubnets v)
   \<and> length (publicSubnets (suppress_routes e (suppress_routes e v))) =
       length (publicSubnets v)
   \<and> suppress_routes e' (suppress_routes e v) = suppress_routes e' v"
  by (simp add: suppress_routes_twice privateSubnets_suppress_routes
      publicSubnets_suppress_routes)

theorem suppressor_idempotent_witness:
  "suppress_routes 0 (suppress_routes 0 sample_vpc) = suppress_routes 0 sample_vpc
   \<and> map resource_id (suppressed_routes 0 (suppress_routes 0 (suppress_routes 0 sample_vpc))) =
       [''DefaultRoute'', ''DefaultRoute'']
   \<and> length (privateSubnets (suppress_routes 0 (suppress_routes 0 sample_vpc))) = 2
   \<and> length (publicSubnets (suppress_routes 0 (suppress_routes 0 sample_vpc))) = 2"
proof -
  have r: "map resource_id (suppressed_routes 0 (suppress_routes 0 sample_vpc)) =
      [''DefaultRoute'', ''DefaultRoute'']"
    by (simp add: suppress_routes_eq suppress_subnet_eq suppress_child_def is_CfnRoute_def
        suppressed_routes_def sample_vpc_def sample_subnet_def resource_def)
  have l: "length (privateSubnets sample_vpc) = 2" "length (publicSubnets sample_vpc) = 2"
    by (simp_all add: sample_vpc_def)
  from suppressor_idempotent [of 0 sample_vpc 0] r l
  show ?thesis by (elim conjE) simp
qed

text \<open>
  C7. The suppressor changes a child of a private subnet only when the name of its class
  is exactly \<^verbatim>\<open>CfnRoute\<close>. Such a child gets the condition and keeps everything
  else; any other child, in particular the route table (\<^verbatim>\<open>CfnRouteTable\<close>) and
  its association (\<^verbatim>\<open>CfnSubnetRouteTableAssociation\<close>), is returned as it was.
  So a child that did not hold the reference already differs afterwards if and only if
  it is a \<^verbatim>\<open>CfnRoute\<close>.
\<close>

theorem only_routes_are_modified:
  assumes "i < length (privateSubnets v)"
    and "j < length (children (node (privateSubnets v ! i)))"
  shows "(constructor_name (private_child v i j) = ''CfnRoute'' \<longrightarrow>
            private_child (suppress_routes e v) i j =
              (private_child v i j)\<lparr>cfnOptions :=
                 (cfnOptions (private_child v i j))\<lparr>condition := Some e\<rparr>\<rparr>)
       \<and> (constructor_name (private_child v i j) \<noteq> ''CfnRoute'' \<longrightarrow>
            private_child (suppress_routes e v) i j = private_child v i j)
       \<and> (constructor_name (private_child v i j) = ''CfnRouteTable'' \<longrightarrow>
            private_child (suppress_routes e v) i j = private_child v i j)
       \<and> (constructor_name (private_child v i j) = ''CfnSubnetRouteTableAssociation'' \<longrightarrow>
            private_child (suppress_routes e v) i j = private_child v i j)
       \<and> (condition (cfnOptions (private_child v i j)) \<noteq> Some e \<longrightarrow>
            (private_child (suppress_routes e v) i j \<noteq> private_child v i j
             \<longleftrightarrow> constructor_name (private_child v i j) = ''CfnRoute''))"
proof -
  let ?c = "private_child v i j"
  have at: "private_child (suppress_routes e v) i j = suppress_child e ?c"
    using assms
    by (simp add: private_child_def privateSubnets_suppress_routes children_suppress_subnet)
  have route: "constructor_name ?c = ''CfnRoute'' \<Longrightarrow>
      suppress_child e ?c = ?c\<lparr>cfnOptions := (cfnOptions ?c)\<lparr>condition := Some e\<rparr>\<rparr>"
    by (simp add: suppress_child_def is_CfnRoute_def)
  have other: "constructor_name ?c \<noteq> ''CfnRoute'' \<Longrightarrow> suppress_child e ?c = ?c"
    by (simp add: suppress_child_def is_CfnRoute_def)
  have differs: "condition (cfnOptions ?c) \<noteq> Some e \<Longrightarrow> constructor_name ?c = ''CfnRoute''
      \<Longrightarrow> suppress_child e ?c \<noteq> ?c"
  proof
    assume fresh: "condition (cfnOptions ?c) \<noteq> Some e"
      and "constructor_name ?c = ''CfnRoute''" and same: "suppress_child e ?c = ?c"
    then have "?c\<lparr>cfnOptions := (cfnOptions ?c)\<lparr>condition := Some e\<rparr>\<rparr> = ?c"
      using route by simp
    then have "condition (cfnOptions (?c\<lparr>cfnOptions := (cfnOptions ?c)\<lparr>condition := Some e\<rparr>\<rparr>))
        = condition (cfnOptions ?c)"
      by simp
    with fresh show False by simp
  qed
  show ?thesis
    unfolding at using route other differs by auto
qed

theorem only_routes_are_modified_witness:
  "private_child (suppress_routes 0 sample_vpc) 0 3 =
     (private_child sample_vpc 0 3)\<lparr>cfnOptions :=
        (cfnOptions (private_child sample_vpc 0 3))\<lparr>condition := Some 0\<rparr>\<rparr>
   \<and> constructor_name (private_child sample_vpc 0 3) = ''CfnRoute''
   \<and> private_child (suppress_routes 0 sample_vpc) 0 3 \<noteq> private_child sample_vpc 0 3
   \<and> constructor_name (private_child sample_vpc 0 1) = ''CfnRouteTable''
   \<and> private_child (suppress_routes 0 sample_vpc) 0 1 = private_child sample_vpc 0 1
   \<and> constructor_name (private_child sample_vpc 1 2) = ''CfnSubnetRouteTableAssociation''
   \<and> private_child (suppress_routes 0 sample_vpc) 1 2 = private_child sample_vpc 1 2"
proof -
  have i: "0 < length (privateSubnets sample_vpc)" "1 < length (privateSubnets sample_vpc)"
    by (simp_all add: sample_vpc_def)
  have j: "3 < length (children (node (privateSubnets sample_vpc ! 0)))"
    "1 < length (children (node (privateSubnets sample_vpc ! 0)))"
    "2 < length (children (node (privateSubnets sample_vpc ! 1)))"
    by (simp_all add: sample_vpc_def sample_subnet_def)
  have n: "constructor_name (private_child sample_vpc 0 3) = ''CfnRoute''"
    "constructor_name (private_child sample_vpc 0 1) = ''CfnRouteTable''"
    "constructor_name (private_child sample_vpc 1 2) = ''CfnSubnetRouteTableAssociation''"
    "condition (cfnOptions (private_child sample_vpc 0 3)) \<noteq> Some 0"
    by (simp_all add: private_child_def sample_vpc_def sample_subnet_def resource_def)
  from only_routes_are_modified [OF i(1) j(1), of 0]
    only_routes_are_modified [OF i(1) j(2), of 0]
    only_routes_are_modified [OF i(2) j(3), of 0] n
  show ?thesis by (elim conjE) simp
qed

text \<open>
  C8. Nothing checks how many routes were suppressed. Where the library has given a
  private subnet no child of class \<^verbatim>\<open>CfnRoute\<close>, the loops raise no error and
  the constructor goes on past them: it returns the stack, or, when the role of the
  configuration cannot be converted to a string, throws at the statement that builds the
  role's ARN, after the loops. Either way that subnet is in the stack exactly as the
  library built it, and no condition was assigned in it.
\<close>

theorem no_route_is_a_silent_no_op:
  assumes "placeholder_test config = Inr False"
    and "i < length (privateSubnets (ec2_Vpc \<lparr>maxAzs = 2, natGateways = 0\<rparr>))"
    and "\<forall>c \<in> set (children (node (privateSubnets (ec2_Vpc \<lparr>maxAzs = 2, natGateways = 0\<rparr>) ! i))).
           constructor_name c \<noteq> ''CfnRoute''"
  shows "\<exists>this v role. config_get config ''iam_role'' = Inr role
           \<and> (CloudmapperauditorStack ec2_Vpc config = Constructed this
                \<and> (\<exists>r. to_string role = Inr r)
              \<or> CloudmapperauditorStack ec2_Vpc config = Threw TypeError this
                \<and> to_string role = Inl TypeError)
           \<and> stack_vpc this = Some v
           \<and> privateSubnets v ! i = privateSubnets (ec2_Vpc \<lparr>maxAzs = 2, natGateways = 0\<rparr>) ! i
           \<and> filter (\<lambda>c. condition (cfnOptions c) = Some 0 \<and> constructor_name c = ''CfnRoute'')
                (children (node (privateSubnets v ! i))) = []"
proof -
  let ?lib = "ec2_Vpc \<lparr>maxAzs = 2, natGateways = 0\<rparr>"
  let ?s = "privateSubnets ?lib ! i"
  have "map (suppress_child 0) (children (node ?s)) = map (\<lambda>c. c) (children (node ?s))"
    using assms(3) by (intro map_cong) (simp_all add: suppress_child_def is_CfnRoute_def)
  then have same: "suppress_subnet 0 ?s = ?s"
    by (simp add: suppress_subnet_eq)
  have at: "privateSubnets (suppress_routes 0 ?lib) ! i = ?s"
    using assms(2) same by (simp add: privateSubnets_suppress_routes)
  have none: "filter (\<lambda>c. condition (cfnOptions c) = Some 0 \<and> constructor_name c = ''CfnRoute'')
      (children (node ?s)) = []"
    using assms(3) by (simp add: filter_empty_conv)
  from assms(1) obtain bucket b where bucket: "config_get config ''s3_bucket'' = Inr bucket"
    and b: "to_string bucket = Inr b"
    using placeholder_test_fields by blast
  from bucket obtain role alarm where role: "config_get config ''iam_role'' = Inr role"
    and alarm: "config_get config ''alarm_sns_arn'' = Inr alarm"
    using config_get_other_key by blast
  show ?thesis
  proof (cases "to_string role")
    case (Inl e)
    then have "to_string role = Inl TypeError"
      by (cases e) simp
    with constructor_throws_at_role [OF assms(1) bucket role this, of ec2_Vpc] role at none
    show ?thesis by simp
  next
    case (Inr r)
    with constructor_proceeds [OF assms(1) bucket b role Inr alarm, of ec2_Vpc] role at none
    show ?thesis by simp
  qed
qed

theorem no_route_is_a_silent_no_op_witness:
  "placeholder_test sample_config = Inr False
   \<and> map constructor_name (children (node (privateSubnets routeless_vpc ! 0))) =
       [''CfnSubnet'', ''CfnRouteTable'', ''CfnSubnetRouteTableAssociation'']
   \<and> (\<exists>this v. CloudmapperauditorStack routeless_library sample_config = Constructed this
         \<and> stack_vpc this = Some v
         \<and> privateSubnets v ! 0 = privateSubnets routeless_vpc ! 0
         \<and> filter (\<lambda>c. condition (cfnOptions c) = Some 0 \<and> constructor_name c = ''CfnRoute'')
              (children (node (privateSubnets v ! 0))) = [])"
proof -
  have i: "0 < length (privateSubnets (routeless_library \<lparr>maxAzs = 2, natGateways = 0\<rparr>))"
    by (simp add: routeless_vpc_def routeless_library_def)
  have n: "map constructor_name (children (node (privateSubnets routeless_vpc ! 0))) =
       [''CfnSubnet'', ''CfnRouteTable'', ''CfnSubnetRouteTableAssociation'']"
    by (simp add: routeless_vpc_def routeless_subnet_def resource_def)
  have c: "\<forall>c \<in> set (children (node (privateSubnets
             (routeless_library \<lparr>maxAzs = 2, natGateways = 0\<rparr>) ! 0))).
           constructor_name c \<noteq> ''CfnRoute''"
    by (simp add: routeless_vpc_def routeless_subnet_def resource_def routeless_library_def)
  have r: "to_string (JStr ''audit'') = Inr ''audit''"
    by simp
  from no_route_is_a_silent_no_op
    [where config = sample_config and i = 0 and ?ec2_Vpc = routeless_library,
     OF sample_config_fields(1) i c]
  obtain this v role where role: "config_get sample_config ''iam_role'' = Inr role"
    and o: "CloudmapperauditorStack routeless_library sample_config = Constructed this
              \<or> CloudmapperauditorStack routeless_library sample_config = Threw TypeError this
                \<and> to_string role = Inl TypeError"
    and v: "stack_vpc this = Some v"
      "privateSubnets v ! 0 = privateSubnets (routeless_library \<lparr>maxAzs = 2, natGateways = 0\<rparr>) ! 0"
      "filter (\<lambda>c. condition (cfnOptions c) = Some 0 \<and> constructor_name c = ''CfnRoute'')
              (children (node (privateSubnets v ! 0))) = []"
    by blast
  from role have "role = JStr ''audit''"
    by (simp add: sample_config_fields)
  with o r have "CloudmapperauditorStack routeless_library sample_config = Constructed this"
    by auto
  with v n sample_config_fields(1) show ?thesis
    by (auto simp add: routeless_library_def)
qed

text \<open>
  C9. The test reads the field \<^verbatim>\<open>s3_bucket\<close> and no other. When that field is
  absent, or the test is false for it, the constructor goes on whatever
  \<^verbatim>\<open>iam_role\<close> and \<^verbatim>\<open>alarm_sns_arn\<close> hold. If the role converts to a
  string, the constructor returns the stack and the unchecked values are in it: the
  string of the role after \<^verbatim>\<open>arn:aws:iam::*:role/\<close> in the policy of the task role
  (a string as it is, an absent role as \<^verbatim>\<open>undefined\<close>), and the alarm topic as it
  is in the environment of the forwarder and in the policy of its role. If the role does
  not convert (a mapping with a key \<^verbatim>\<open>toString\<close>), the concatenation throws after
  the network is built and before any statement is added to the task role.
\<close>

theorem only_the_bucket_is_checked:
  assumes "config_get config ''s3_bucket'' = Inr JUndefined
           \<or> placeholder_test config = Inr False"
  shows "\<exists>role alarm. config_get config ''iam_role'' = Inr role
         \<and> config_get config ''alarm_sns_arn'' = Inr alarm
         \<and> placeholder_test config = Inr False
         \<and> (\<forall>r. to_string role = Inr r \<longrightarrow>
              (\<exists>this. CloudmapperauditorStack ec2_Vpc config = Constructed this
                 \<and> taskRolePolicy this ! 0 =
                     \<lparr>resources = [JStr (''arn:aws:iam::*:role/'' @ r)],
                      actions = [''sts:AssumeRole''], statement_conditions = []\<rparr>
                 \<and> functionEnvironment this = [(''ALARM_SNS'', alarm)]
                 \<and> functionRolePolicy this =
                     [\<lparr>resources = [alarm], actions = [''sns:Publish''],
                       statement_conditions = []\<rparr>]))
         \<and> (\<forall>e. to_string role = Inl e \<longrightarrow>
              (\<exists>this. CloudmapperauditorStack ec2_Vpc config = Threw e this
                 \<and> stack_vpc this \<noteq> None \<and> taskRolePolicy this = []))
         \<and> (\<forall>s. role = JStr s \<longrightarrow> to_string role = Inr s)
         \<and> (role = JUndefined \<longrightarrow> to_string role = Inr ''undefined'')
         \<and> (\<forall>kvs. role = JObj kvs \<and> ''toString'' \<in> set (map fst kvs) \<longrightarrow>
               to_string role = Inl TypeError)"
proof -
  have test: "placeholder_test config = Inr False"
    using assms by (auto simp add: placeholder_test_def)
  then obtain bucket b where bucket: "config_get config ''s3_bucket'' = Inr bucket"
    and b: "to_string bucket = Inr b"
    using placeholder_test_fields by blast
  from bucket obtain role alarm where role: "config_get config ''iam_role'' = Inr role"
    and alarm: "config_get config ''alarm_sns_arn'' = Inr alarm"
    using config_get_other_key by blast
  have built: "\<exists>this. CloudmapperauditorStack ec2_Vpc config = Constructed this
                 \<and> taskRolePolicy this ! 0 =
                     \<lparr>resources = [JStr (''arn:aws:iam::*:role/'' @ r)],
                      actions = [''sts:AssumeRole''], statement_conditions = []\<rparr>
                 \<and> functionEnvironment this = [(''ALARM_SNS'', alarm)]
                 \<and> functionRolePolicy this =
                     [\<lparr>resources = [alarm], actions = [''sns:Publish''],
                       statement_conditions = []\<rparr>]"
    if "to_string role = Inr r" for r
    using constructor_proceeds [OF test bucket b role that alarm, of ec2_Vpc] by simp
  have thrown: "\<exists>this. CloudmapperauditorStack ec2_Vpc config = Threw e this
                 \<and> stack_vpc this \<noteq> None \<and> taskRolePolicy this = []"
    if "to_string role = Inl e" for e
    using constructor_throws_at_role [OF test bucket role that, of ec2_Vpc] by simp
  have conv: "\<forall>s. role = JStr s \<longrightarrow> to_string role = Inr s"
    "role = JUndefined \<longrightarrow> to_string role = Inr ''undefined''"
    "\<forall>kvs. role = JObj kvs \<and> ''toString'' \<in> set (map fst kvs) \<longrightarrow>
               to_string role = Inl TypeError"
    by auto
  from role alarm test built thrown conv show ?thesis
    by blast
qed

theorem only_the_bucket_is_checked_witness:
  "config_get role_only_config ''s3_bucket'' = Inr JUndefined
   \<and> config_get role_only_config ''iam_role'' = Inr (JStr ''SecurityAuditor'')
   \<and> config_get role_only_config ''alarm_sns_arn'' = Inr JUndefined
   \<and> (\<exists>this. CloudmapperauditorStack sample_library role_only_config = Constructed this
         \<and> resources (taskRolePolicy this ! 0) = [JStr ''arn:aws:iam::*:role/SecurityAuditor'']
         \<and> functionEnvironment this = [(''ALARM_SNS'', JUndefined)]
         \<and> functionRolePolicy this =
             [\<lparr>resources = [JUndefined], actions = [''sns:Publish''],
               statement_conditions = []\<rparr>])
   \<and> config_get (JObj []) ''iam_role'' = Inr JUndefined
   \<and> (\<exists>this. CloudmapperauditorStack sample_library (JObj []) = Constructed this
         \<and> resources (taskRolePolicy this ! 0) = [JStr ''arn:aws:iam::*:role/undefined''])"
proof -
  have a: "config_get role_only_config ''s3_bucket'' = Inr JUndefined"
    "config_get role_only_config ''iam_role'' = Inr (JStr ''SecurityAuditor'')"
    "config_get role_only_config ''alarm_sns_arn'' = Inr JUndefined"
    by (simp_all add: role_only_config_def)
  have b: "config_get (JObj []) ''s3_bucket'' = Inr JUndefined"
    "config_get (JObj []) ''iam_role'' = Inr JUndefined"
    by simp_all
  have s: "to_string (JStr ''SecurityAuditor'') = Inr ''SecurityAuditor''"
    "to_string JUndefined = Inr ''undefined''"
    by simp_all
  from only_the_bucket_is_checked [of role_only_config sample_library] a s
  have first: "\<exists>this. CloudmapperauditorStack sample_library role_only_config = Constructed this
         \<and> resources (taskRolePolicy this ! 0) = [JStr ''arn:aws:iam::*:role/SecurityAuditor'']
         \<and> functionEnvironment this = [(''ALARM_SNS'', JUndefined)]
         \<and> functionRolePolicy this =
             [\<lparr>resources = [JUndefined], actions = [''sns:Publish''],
               statement_conditions = []\<rparr>]"
    by fastforce
  from only_the_bucket_is_checked [of "JObj []" sample_library] b s
  have second: "\<exists>this. CloudmapperauditorStack sample_library (JObj []) = Constructed this
         \<and> resources (taskRolePolicy this ! 0) = [JStr ''arn:aws:iam::*:role/undefined'']"
    by fastforce
  from a b first second show ?thesis
    by simp
qed

text \<open>
  With \<^verbatim>\<open>iam_role: {toString: x}\<close> and no bucket the test passes, and yet no stack
  is returned: building the ARN of the role throws, with the network declared and the
  policy of the task role still empty.
\<close>

theorem only_the_bucket_is_checked_counterexample:
  "config_get role_mapping_config ''s3_bucket'' = Inr JUndefined
   \<and> placeholder_test role_mapping_config = Inr False
   \<and> is_Threw (CloudmapperauditorStack sample_library role_mapping_config)
   \<and> \<not> is_Constructed (CloudmapperauditorStack sample_library role_mapping_config)
   \<and> taskRolePolicy (stack_of (CloudmapperauditorStack sample_library role_mapping_config)) = []
   \<and> constructs (stack_of (CloudmapperauditorStack sample_library role_mapping_config)) =
       [''CloudMapperVpc'', ''exclude-default-route-subnet'', ''Cluster'', ''taskDefinition'']"
proof -
  have t: "placeholder_test role_mapping_config = Inr False"
    and b: "config_get role_mapping_config ''s3_bucket'' = Inr JUndefined"
    and r: "config_get role_mapping_config ''iam_role'' = Inr (JObj [(''toString'', JStr ''x'')])"
    by (simp_all add: role_mapping_config_def placeholder_test_def)
  have e: "to_string (JObj [(''toString'', JStr ''x'')]) = Inl TypeError"
    by simp
  from constructor_throws_at_role [OF t b r e, of sample_library] t b
  show ?thesis by simp
qed

text \<open>
  C10. The suppressor returns on every network, whatever the kinds of the children. Both
  loops reach their exit from every state (the index rises to the length of the array,
  which the body does not change), and the network they return is the given one with the
  body of the inner loop applied once to every child of every private subnet: the number
  of private subnets and the number of children of each are those of the given network.
\<close>

theorem suppressor_total:
  "for_of_dom (suppress_subnet e, privateSubnets v, 0)
   \<and> for_of_dom (suppress_child e, children (node s), 0)
   \<and> suppress_routes e v =
       v\<lparr>privateSubnets :=
           map (\<lambda>s. s\<lparr>node := (node s)\<lparr>children :=
                        map (suppress_child e) (children (node s))\<rparr>\<rparr>)
               (privateSubnets v)\<rparr>
   \<and> length (privateSubnets (suppress_routes e v)) = length (privateSubnets v)
   \<and> map (\<lambda>s. length (children (node s))) (privateSubnets (suppress_routes e v)) =
       map (\<lambda>s. length (children (node s))) (privateSubnets v)"
proof -
  have "suppress_subnet e = (\<lambda>s. s\<lparr>node := (node s)\<lparr>children :=
          map (suppress_child e) (children (node s))\<rparr>\<rparr>)"
    by (rule ext) (rule suppress_subnet_eq)
  then have closed: "suppress_routes e v =
       v\<lparr>privateSubnets :=
           map (\<lambda>s. s\<lparr>node := (node s)\<lparr>children :=
                        map (suppress_child e) (children (node s))\<rparr>\<rparr>)
               (privateSubnets v)\<rparr>"
    by (simp add: suppress_routes_eq)
  have "map (\<lambda>s. length (children (node s))) (privateSubnets (suppress_routes e v)) =
       map (\<lambda>s. length (children (node s))) (privateSubnets v)"
    by (simp add: privateSubnets_suppress_routes children_suppress_subnet comp_def)
  with closed show ?thesis
    by (simp add: for_of_terminates privateSubnets_suppress_routes)
qed

theorem suppressor_total_witness:
  "for_of_dom (suppress_subnet 0, privateSubnets sample_vpc, 0)
   \<and> length (privateSubnets (suppress_routes 0 sample_vpc)) = 2
   \<and> map (\<lambda>s. length (children (node s))) (privateSubnets (suppress_routes 0 sample_vpc)) =
       [4, 4]"
proof -
  have l: "length (privateSubnets sample_vpc) = 2"
    by (simp add: sample_vpc_def)
  have m: "map (\<lambda>s. length (children (node s))) (privateSubnets sample_vpc) = [4, 4]"
    by (simp add: sample_vpc_def sample_subnet_def)
  from suppressor_total [of 0 sample_vpc "hd (privateSubnets sample_vpc)"] l m
  show ?thesis by (elim conjE) simp
qed

end
